theory Spec2Isabelle
  imports Main "HOL-Library.AList"
begin

section \<open>Data model\<close>

text \<open>
  A claims set is a Python \<open>dict\<close> with string keys. Insertion order is kept (it is the
  order of the serialised token), so it is an association list; \<open>dict.update\<close> replaces the
  value of a key that is present in place and appends a new key, which is
  \<open>AList.update\<close>. Values are the JSON values the flows use: strings, timestamps
  (seconds since the epoch, what \<open>datetime.utcnow()\<close> is serialised to) and \<open>null\<close>.
\<close>

datatype jval = Str string | Num int | Null

type_synonym claims = "(string \<times> jval) list"

definition dict_update :: "claims \<Rightarrow> claims \<Rightarrow> claims" where
  "dict_update d kvs = fold (\<lambda>kv acc. AList.update (fst kv) (snd kv) acc) kvs d"

text \<open>
  Modelled from the spec: the Token Codec is the external library \<open>jose.jwt\<close>, which is
  not part of the sources. Section 4.2: \<open>encode(claims, secret, algorithm)\<close> gives a token
  string; \<open>decode(token, secret, algorithm)\<close> gives the claims back and fails with
  \<open>InvalidSignature\<close> when the signature does not verify, or \<open>Expired\<close> when \<open>exp\<close> has
  passed. The token is symbolic: a signed token carries its claims, the key and the
  algorithm it was signed with, and every other string is \<open>Malformed\<close>. Expiry is exact
  (no leeway): a token is expired when \<open>exp < now\<close>. An \<open>exp\<close> that is not a timestamp is
  refused as \<open>InvalidClaims\<close>. All three failures are \<open>JWTError\<close>s for the callers.
\<close>

datatype token = JWS claims string string | Malformed string

datatype jwt_error = InvalidSignature | Expired | InvalidClaims

definition jwt_encode :: "claims \<Rightarrow> string \<Rightarrow> string \<Rightarrow> token" where
  "jwt_encode cl key alg = JWS cl key alg"

fun jwt_decode :: "token \<Rightarrow> string \<Rightarrow> string list \<Rightarrow> int \<Rightarrow> jwt_error + claims" where
  "jwt_decode (Malformed s) key algorithms now = Inl InvalidSignature"
| "jwt_decode (JWS cl k a) key algorithms now =
     (if a \<notin> set algorithms \<or> k \<noteq> key then Inl InvalidSignature
      else case map_of cl ''exp'' of
             None \<Rightarrow> Inr cl
           | Some (Num e) \<Rightarrow> if e < now then Inl Expired else Inr cl
           | Some (Str s) \<Rightarrow> Inl InvalidClaims
           | Some Null \<Rightarrow> Inl InvalidClaims)"

text \<open>
  Modelled from the spec: \<open>src/database/models.py\<close> (the \<open>Role\<close> enum and the \<open>User\<close>
  table) is not part of the sources. Section 3: a user is identified by a unique email and
  holds a password hash, a \<open>confirmed\<close> boolean, a role (\<open>user\<close>, \<open>moderator\<close>, \<open>admin\<close>) and
  at most one refresh token (nullable). \<open>username\<close> is read by the routes.
\<close>

datatype Role = Role_admin | Role_moderator | Role_user

record User =
  email :: string
  username :: string
  password :: string
  confirmed :: bool
  role :: Role
  refresh_token :: "token option"

text \<open>The database session: the rows of the users table.\<close>

type_synonym Session = "User list"

text \<open>
  What a request raises: an \<open>HTTPException\<close> (status code, detail, headers), or an
  exception no handler of the flows catches (\<open>KeyError\<close> of a dict subscript,
  \<open>AttributeError\<close> of an attribute read on \<open>None\<close>), which is an internal failure.
\<close>

datatype error =
    HTTPException nat string "(string \<times> string) list"
  | KeyError string
  | AttributeError string

fun is_HTTPException :: "error \<Rightarrow> bool" where
  "is_HTTPException (HTTPException c d h) = True"
| "is_HTTPException (KeyError k) = False"
| "is_HTTPException (AttributeError a) = False"

text \<open>The error taxonomy of the spec (section 7), as the exceptions the code raises.\<close>

abbreviation InvalidEmail :: error where
  "InvalidEmail \<equiv> HTTPException 401 ''Invalid email'' []"

abbreviation EmailNotConfirmed :: error where
  "EmailNotConfirmed \<equiv> HTTPException 401 ''Email not confirmed'' []"

abbreviation InvalidPassword :: error where
  "InvalidPassword \<equiv> HTTPException 401 ''Invalid password'' []"

abbreviation InvalidRefreshToken :: error where
  "InvalidRefreshToken \<equiv> HTTPException 401 ''Invalid refresh token'' []"

abbreviation WrongScope :: error where
  "WrongScope \<equiv> HTTPException 401 ''Invalid scope for token'' []"

abbreviation VerificationError :: error where
  "VerificationError \<equiv> HTTPException 400 ''Verification error'' []"

abbreviation Forbidden :: error where
  "Forbidden \<equiv> HTTPException 403 ''Operation forbidden'' []"

text \<open>\<open>credentials_exception\<close> of \<open>Auth.get_current_user\<close>: the spec's \<open>CredentialsInvalid\<close>.\<close>

definition credentials_exception :: error where
  "credentials_exception =
     HTTPException 401 ''Could not validate credentials'' [(''WWW-Authenticate'', ''Bearer'')]"

text \<open>What a route returns: the token dict, or a message dict.\<close>

datatype response = TokenModel token token string | Message string

text \<open>A queued background task: \<open>send_email(email, username, base_url)\<close>.\<close>

datatype task = send_email string string string

section \<open>Repository of users\<close>

text \<open>
  Modelled from the spec: \<open>src/repository/users.py\<close> is not part of the sources.
  Sections 2 and 3: the session lookup resolves an email to the user record, and persists
  a single refresh token per user, a new value overwriting the prior one;
  section 4.3: ConfirmEmail marks the user confirmed. The email a flow looks up comes
  from a decoded payload, so it is any JSON value; only a string matches a row.
\<close>

fun get_user_by_email :: "jval \<Rightarrow> Session \<Rightarrow> User option" where
  "get_user_by_email (Str e) db = find (\<lambda>u. email u = e) db"
| "get_user_by_email (Num n) db = None"
| "get_user_by_email Null db = None"

definition update_token :: "User \<Rightarrow> token option \<Rightarrow> Session \<Rightarrow> Session" where
  "update_token user tok db =
     map (\<lambda>u. if email u = email user then u\<lparr>refresh_token := tok\<rparr> else u) db"

definition repository_confirmed_email :: "jval \<Rightarrow> Session \<Rightarrow> Session" where
  "repository_confirmed_email e db =
     (case get_user_by_email e db of
        None \<Rightarrow> db
      | Some user \<Rightarrow> map (\<lambda>u. if email u = email user then u\<lparr>confirmed := True\<rparr> else u) db)"

section \<open>services/auth.py: class Auth\<close>

text \<open>
  The class attributes: the signing secret and algorithm come from the settings, and
  \<open>pwd_context.verify\<close> is the external credential hasher; all three are parameters.
\<close>

record Auth =
  SECRET_KEY :: string
  ALGORITHM :: string
  pwd_context_verify :: "string \<Rightarrow> string \<Rightarrow> bool"

definition verify_password :: "Auth \<Rightarrow> string \<Rightarrow> string \<Rightarrow> bool" where
  "verify_password self plain_password hashed_password =
     pwd_context_verify self plain_password hashed_password"

text \<open>
  \<open>expires_delta\<close> is \<open>Optional[float]\<close> seconds, here whole seconds; \<open>if expires_delta:\<close> is
  false for \<open>None\<close> and for zero. \<open>now\<close> is \<open>datetime.utcnow()\<close>, in seconds; the reads of
  the clock within one request are taken as one instant.
\<close>

fun truthy :: "int option \<Rightarrow> bool" where
  "truthy None = False"
| "truthy (Some d) = (d \<noteq> 0)"

definition create_access_token :: "Auth \<Rightarrow> claims \<Rightarrow> int option \<Rightarrow> int \<Rightarrow> token" where
  "create_access_token self data expires_delta now =
     (let expire = (if truthy expires_delta then now + the expires_delta else now + 150 * 60);
          to_encode = dict_update data
            [(''iat'', Num now), (''exp'', Num expire), (''scope'', Str ''access_token'')]
      in jwt_encode to_encode (SECRET_KEY self) (ALGORITHM self))"

definition create_refresh_token :: "Auth \<Rightarrow> claims \<Rightarrow> int option \<Rightarrow> int \<Rightarrow> token" where
  "create_refresh_token self data expires_delta now =
     (let expire = (if truthy expires_delta then now + the expires_delta
                    else now + 7 * 24 * 60 * 60);
          to_encode = dict_update data
            [(''iat'', Num now), (''exp'', Num expire), (''scope'', Str ''refresh_token'')]
      in jwt_encode to_encode (SECRET_KEY self) (ALGORITHM self))"

definition decode_refresh_token :: "Auth \<Rightarrow> token \<Rightarrow> int \<Rightarrow> error + jval" where
  "decode_refresh_token self tok now =
     (case jwt_decode tok (SECRET_KEY self) [ALGORITHM self] now of
        Inl err \<Rightarrow> Inl (HTTPException 401 ''Could not validate credentials'' [])
      | Inr payload \<Rightarrow>
          (case map_of payload ''scope'' of
             None \<Rightarrow> Inl (KeyError ''scope'')
           | Some sc \<Rightarrow>
               if sc = Str ''refresh_token'' then
                 (case map_of payload ''sub'' of
                    None \<Rightarrow> Inl (KeyError ''sub'')
                  | Some email' \<Rightarrow> Inr email')
               else Inl (HTTPException 401 ''Invalid scope for token'' [])))"

definition get_current_user :: "Auth \<Rightarrow> token \<Rightarrow> int \<Rightarrow> Session \<Rightarrow> error + User" where
  "get_current_user self tok now db =
     (case jwt_decode tok (SECRET_KEY self) [ALGORITHM self] now of
        Inl err \<Rightarrow> Inl credentials_exception
      | Inr payload \<Rightarrow>
          (case map_of payload ''scope'' of
             None \<Rightarrow> Inl (KeyError ''scope'')
           | Some sc \<Rightarrow>
               if sc = Str ''access_token'' then
                 (case map_of payload ''sub'' of
                    None \<Rightarrow> Inl (KeyError ''sub'')
                  | Some email' \<Rightarrow>
                      if email' = Null then Inl credentials_exception
                      else (case get_user_by_email email' db of
                              None \<Rightarrow> Inl credentials_exception
                            | Some user \<Rightarrow> Inr user))
               else Inl credentials_exception))"

definition create_email_token :: "Auth \<Rightarrow> claims \<Rightarrow> int \<Rightarrow> token" where
  "create_email_token self data now =
     (let expire = now + 7 * 24 * 60 * 60;
          to_encode = dict_update data [(''iat'', Num now), (''exp'', Num expire)]
      in jwt_encode to_encode (SECRET_KEY self) (ALGORITHM self))"

definition get_email_from_token :: "Auth \<Rightarrow> token \<Rightarrow> int \<Rightarrow> error + jval" where
  "get_email_from_token self tok now =
     (case jwt_decode tok (SECRET_KEY self) [ALGORITHM self] now of
        Inl err \<Rightarrow> Inl (HTTPException 422 ''Invalid token for email verification'' [])
      | Inr payload \<Rightarrow>
          (case map_of payload ''sub'' of
             None \<Rightarrow> Inl (KeyError ''sub'')
           | Some email' \<Rightarrow> Inr email'))"

section \<open>services/roles.py: class RoleAccess\<close>

record RoleAccess =
  allowed_roles :: "Role list"

text \<open>
  \<open>RoleAccess.__call__\<close>, given the user \<open>get_current_user\<close> resolved. The two \<open>print\<close>
  calls write to the standard output only. Returning \<open>None\<close> lets the request proceed.
\<close>

definition RoleAccess_call :: "RoleAccess \<Rightarrow> User \<Rightarrow> error + unit" where
  "RoleAccess_call self user =
     (if role user \<notin> set (allowed_roles self) then Inl (HTTPException 403 ''Operation forbidden'' [])
      else Inr ())"

text \<open>The dependency chain of a gated endpoint: resolve the user, then check the role.\<close>

definition role_gate :: "RoleAccess \<Rightarrow> Auth \<Rightarrow> token \<Rightarrow> int \<Rightarrow> Session \<Rightarrow> error + unit" where
  "role_gate self auth_service tok now db =
     (case get_current_user auth_service tok now db of
        Inl err \<Rightarrow> Inl err
      | Inr user \<Rightarrow> RoleAccess_call self user)"

section \<open>routes/auth.py\<close>

text \<open>
  Each route takes the session and returns it with the outcome: a route can write and
  then raise. \<open>login\<close> reads \<open>body.username\<close> and \<open>body.password\<close> of the form.
\<close>

definition login :: "Auth \<Rightarrow> string \<Rightarrow> string \<Rightarrow> int \<Rightarrow> Session \<Rightarrow> Session \<times> (error + response)" where
  "login auth_service body_username body_password now db =
     (case get_user_by_email (Str body_username) db of
        None \<Rightarrow> (db, Inl (HTTPException 401 ''Invalid email'' []))
      | Some user \<Rightarrow>
          if \<not> confirmed user then (db, Inl (HTTPException 401 ''Email not confirmed'' []))
          else if \<not> verify_password auth_service body_password (password user)
          then (db, Inl (HTTPException 401 ''Invalid password'' []))
          else
            (let access = create_access_token auth_service [(''sub'', Str (email user))] None now;
                 refresh = create_refresh_token auth_service [(''sub'', Str (email user))] None now
             in (update_token user (Some refresh) db,
                 Inr (TokenModel access refresh ''bearer''))))"

definition refresh_token_route :: "Auth \<Rightarrow> token \<Rightarrow> int \<Rightarrow> Session \<Rightarrow> Session \<times> (error + response)" where
  "refresh_token_route auth_service tok now db =
     (case decode_refresh_token auth_service tok now of
        Inl err \<Rightarrow> (db, Inl err)
      | Inr email' \<Rightarrow>
          (case get_user_by_email email' db of
             None \<Rightarrow> (db, Inl (AttributeError ''refresh_token''))
           | Some user \<Rightarrow>
               if refresh_token user \<noteq> Some tok
               then (update_token user None db,
                     Inl (HTTPException 401 ''Invalid refresh token'' []))
               else
                 (let access = create_access_token auth_service [(''email'', email')] None now;
                      refresh = create_refresh_token auth_service [(''email'', email')] None now
                  in (update_token user (Some refresh) db,
                      Inr (TokenModel access refresh ''bearer'')))))"

definition confirmed_email :: "Auth \<Rightarrow> token \<Rightarrow> int \<Rightarrow> Session \<Rightarrow> Session \<times> (error + response)" where
  "confirmed_email auth_service tok now db =
     (case get_email_from_token auth_service tok now of
        Inl err \<Rightarrow> (db, Inl err)
      | Inr email' \<Rightarrow>
          (case get_user_by_email email' db of
             None \<Rightarrow> (db, Inl (HTTPException 400 ''Verification error'' []))
           | Some user \<Rightarrow>
               if confirmed user then (db, Inr (Message ''Your email is already confirmed''))
               else (repository_confirmed_email email' db, Inr (Message ''Email confirmed''))))"

text \<open>
  \<open>request_email\<close> also holds the queue of background tasks. \<open>user.confirmed\<close> is read
  before \<open>if user:\<close>, so with no user the read raises \<open>AttributeError\<close>.
\<close>

definition request_email ::
  "string \<Rightarrow> string \<Rightarrow> task list \<Rightarrow> Session \<Rightarrow> (task list \<times> Session) \<times> (error + response)" where
  "request_email body_email base_url background_tasks db =
     (case get_user_by_email (Str body_email) db of
        None \<Rightarrow> ((background_tasks, db), Inl (AttributeError ''confirmed''))
      | Some user \<Rightarrow>
          if confirmed user
          then ((background_tasks, db), Inr (Message ''Your email is already confirmed''))
          else ((background_tasks @ [send_email (email user) (username user) base_url], db),
                Inr (Message ''Check your email for confirmation.'')))"

section \<open>Concrete inputs\<close>

definition auth0 :: Auth where
  "auth0 = \<lparr>SECRET_KEY = ''k'', ALGORITHM = ''HS256'',
            pwd_context_verify = (\<lambda>plain hashed. hashed = ''#'' @ plain)\<rparr>"

definition alice :: User where
  "alice = \<lparr>email = ''a@x.com'', username = ''alice'', password = ''#pw'',
            confirmed = True, role = Role_user, refresh_token = None\<rparr>"

definition bob :: User where
  "bob = \<lparr>email = ''b@x.com'', username = ''bob'', password = ''#pw2'',
          confirmed = False, role = Role_admin, refresh_token = None\<rparr>"

definition tok_old :: token where
  "tok_old = create_refresh_token auth0 [(''sub'', Str ''c@x.com'')] None 0"

definition tok_new :: token where
  "tok_new = create_refresh_token auth0 [(''sub'', Str ''c@x.com'')] None 50"

definition carol :: User where
  "carol = \<lparr>email = ''c@x.com'', username = ''carol'', password = ''#pw3'',
            confirmed = True, role = Role_moderator, refresh_token = Some tok_new\<rparr>"

definition db0 :: Session where
  "db0 = [alice, bob, carol]"

definition tok_ghost :: token where
  "tok_ghost = create_refresh_token auth0 [(''sub'', Str ''z@x.com'')] None 0"

definition tok_mail :: token where
  "tok_mail = create_email_token auth0 [(''sub'', Str ''b@x.com'')] 0"

definition tok_mail_ghost :: token where
  "tok_mail_ghost = create_email_token auth0 [(''sub'', Str ''z@x.com'')] 0"

definition tok_access_bob :: token where
  "tok_access_bob = create_access_token auth0 [(''sub'', Str ''b@x.com'')] None 0"

definition tok_access_alice :: token where
  "tok_access_alice = create_access_token auth0 [(''sub'', Str ''a@x.com'')] None 0"

definition tok_login :: token where
  "tok_login = create_refresh_token auth0 [(''sub'', Str ''a@x.com'')] None 0"

definition tok_rotated :: token where
  "tok_rotated = create_refresh_token auth0 [(''email'', Str ''a@x.com'')] None 10"

definition db_login :: Session where
  "db_login = [alice\<lparr>refresh_token := Some tok_login\<rparr>, bob, carol]"

definition db_rotated :: Session where
  "db_rotated = [alice\<lparr>refresh_token := Some tok_rotated\<rparr>, bob, carol]"

definition claims0 :: claims where
  "claims0 = [(''sub'', Str ''a@x.com''), (''exp'', Num 100)]"

section \<open>Facts about the repository and the codec\<close>

lemma find_map_same:
  "(\<And>x. P (f x) = P x) \<Longrightarrow> find P (map f xs) = map_option f (find P xs)"
  by (induction xs) auto

lemma get_user_by_email_Some:
  "get_user_by_email e db = Some u \<Longrightarrow> e = Str (email u) \<and> u \<in> set db"
  by (cases e) (auto simp: find_Some_iff)

lemma get_user_by_email_update_token:
  "get_user_by_email e (update_token user tok db) =
     map_option (\<lambda>u. if email u = email user then u\<lparr>refresh_token := tok\<rparr> else u)
       (get_user_by_email e db)"
  by (cases e) (simp_all add: update_token_def find_map_same)

lemma get_user_by_email_update_token_same:
  "get_user_by_email e db = Some u \<Longrightarrow>
   get_user_by_email e (update_token u tok db) = Some (u\<lparr>refresh_token := tok\<rparr>)"
  by (simp add: get_user_by_email_update_token)

lemma update_token_twice:
  "update_token (u\<lparr>refresh_token := t1\<rparr>) t2 (update_token u t1 db) = update_token u t2 db"
  by (simp add: update_token_def)

lemma get_user_by_email_confirmed:
  "get_user_by_email e db = Some u \<Longrightarrow>
   get_user_by_email e (repository_confirmed_email e db) = Some (u\<lparr>confirmed := True\<rparr>)"
  by (cases e) (simp_all add: repository_confirmed_email_def find_map_same)

lemma map_of_dict_update:
  "map_of (dict_update d kvs) = fold (\<lambda>kv m. m(fst kv \<mapsto> snd kv)) kvs (map_of d)"
  unfolding dict_update_def
  by (induction kvs arbitrary: d) (simp_all add: update_conv')

lemma decode_refresh_token_cases:
  "decode_refresh_token a tok now = Inr e \<Longrightarrow>
   decode_refresh_token a tok now' = Inr e \<or>
   decode_refresh_token a tok now' = Inl (HTTPException 401 ''Could not validate credentials'' [])"
  by (cases tok)
    (auto simp: decode_refresh_token_def split: if_splits option.splits jval.splits sum.splits)

lemma jwt_decode_created_access:
  "jwt_decode (create_access_token a d None t0) (SECRET_KEY a) [ALGORITHM a] now =
     (if t0 + 9000 < now then Inl Expired
      else Inr (dict_update d
        [(''iat'', Num t0), (''exp'', Num (t0 + 9000)), (''scope'', Str ''access_token'')]))"
  by (simp add: create_access_token_def jwt_encode_def map_of_dict_update)

lemma jwt_decode_created_refresh:
  "jwt_decode (create_refresh_token a d None t0) (SECRET_KEY a) [ALGORITHM a] now =
     (if t0 + 604800 < now then Inl Expired
      else Inr (dict_update d
        [(''iat'', Num t0), (''exp'', Num (t0 + 604800)), (''scope'', Str ''refresh_token'')]))"
  by (simp add: create_refresh_token_def jwt_encode_def map_of_dict_update)

lemma jwt_decode_created_email:
  "jwt_decode (create_email_token a d t0) (SECRET_KEY a) [ALGORITHM a] now =
     (if t0 + 604800 < now then Inl Expired
      else Inr (dict_update d [(''iat'', Num t0), (''exp'', Num (t0 + 604800))]))"
  by (simp add: create_email_token_def jwt_encode_def map_of_dict_update)


lemma role_gate_resolved:
  "get_current_user a tok now db = Inr u \<Longrightarrow> role_gate gate a tok now db = RoleAccess_call gate u"
  by (simp add: role_gate_def)

lemma refresh_token_route_success:
  assumes "decode_refresh_token a tok now = Inr e"
      and "get_user_by_email e db = Some u"
      and "refresh_token u = Some tok"
  shows "refresh_token_route a tok now db =
           (update_token u (Some (create_refresh_token a [(''email'', e)] None now)) db,
            Inr (TokenModel (create_access_token a [(''email'', e)] None now)
                            (create_refresh_token a [(''email'', e)] None now) ''bearer''))"
  using assms by (simp add: refresh_token_route_def Let_def)

text \<open>
  The tokens the refresh route issues carry the subject under \<open>email\<close>, not \<open>sub\<close>, so
  the subscript \<open>payload['sub']\<close> of \<open>decode_refresh_token\<close> raises \<open>KeyError\<close> on them.
\<close>

lemma rotated_token_has_no_sub:
  "now \<le> t0 + 604800 \<Longrightarrow>
   decode_refresh_token a (create_refresh_token a [(''email'', e)] None t0) now =
     Inl (KeyError ''sub'')"
  by (simp add: decode_refresh_token_def jwt_decode_created_refresh dict_update_def)

lemma rotated_token_crashes:
  "now' \<le> now + 604800 \<Longrightarrow>
   refresh_token_route a (create_refresh_token a [(''email'', e)] None now) now' db' =
     (db', Inl (KeyError ''sub''))"
  by (simp add: refresh_token_route_def rotated_token_has_no_sub)

lemma request_email_absent_user:
  "get_user_by_email (Str e) db = None \<Longrightarrow>
   request_email e base_url tasks db = ((tasks, db), Inl (AttributeError ''confirmed''))"
  by (simp add: request_email_def)

section \<open>Facts about the concrete inputs\<close>

lemmas concrete_defs = auth0_def alice_def bob_def carol_def db0_def tok_old_def tok_new_def

lemmas flow_defs = create_access_token_def create_refresh_token_def create_email_token_def
  jwt_encode_def dict_update_def decode_refresh_token_def get_current_user_def
  get_email_from_token_def update_token_def repository_confirmed_email_def
  verify_password_def

lemma dec_old: "decode_refresh_token auth0 tok_old 60 = Inr (Str ''c@x.com'')"
  by (simp add: concrete_defs flow_defs)

lemma dec_old70: "decode_refresh_token auth0 tok_old 70 = Inr (Str ''c@x.com'')"
  by (simp add: concrete_defs flow_defs)

lemma dec_tok_old:
  "jwt_decode tok_old (SECRET_KEY auth0) [ALGORITHM auth0] 60 =
     Inr [(''sub'', Str ''c@x.com''), (''iat'', Num 0), (''exp'', Num 604800),
          (''scope'', Str ''refresh_token'')]"
  by (simp add: tok_old_def jwt_decode_created_refresh dict_update_def)

lemma dec_access_bob:
  "jwt_decode tok_access_bob (SECRET_KEY auth0) [ALGORITHM auth0] 10 =
     Inr [(''sub'', Str ''b@x.com''), (''iat'', Num 0), (''exp'', Num 9000),
          (''scope'', Str ''access_token'')]"
  by (simp add: tok_access_bob_def jwt_decode_created_access dict_update_def)

lemma dec_ghost: "decode_refresh_token auth0 tok_ghost 60 = Inr (Str ''z@x.com'')"
  by (simp add: tok_ghost_def concrete_defs flow_defs)

lemma dec_mail: "get_email_from_token auth0 tok_mail 10 = Inr (Str ''b@x.com'')"
  by (simp add: tok_mail_def concrete_defs flow_defs)

lemma dec_mail20: "get_email_from_token auth0 tok_mail 20 = Inr (Str ''b@x.com'')"
  by (simp add: tok_mail_def concrete_defs flow_defs)

lemma dec_mail_ghost: "get_email_from_token auth0 tok_mail_ghost 10 = Inr (Str ''z@x.com'')"
  by (simp add: tok_mail_ghost_def concrete_defs flow_defs)

lemma get_alice: "get_user_by_email (Str ''a@x.com'') db0 = Some alice"
  by (simp add: concrete_defs)

lemma get_bob: "get_user_by_email (Str ''b@x.com'') db0 = Some bob"
  by (simp add: concrete_defs)

lemma get_carol: "get_user_by_email (Str ''c@x.com'') db0 = Some carol"
  by (simp add: concrete_defs)

lemma get_ghost: "get_user_by_email (Str ''z@x.com'') db0 = None"
  by (simp add: concrete_defs)

lemma carol_tok: "refresh_token carol \<noteq> Some tok_old"
  by (simp add: concrete_defs flow_defs)

lemma bob_unconfirmed: "\<not> confirmed bob"
  by (simp add: bob_def)

lemma bob_password: "verify_password auth0 ''pw2'' (password bob)"
  by (simp add: concrete_defs verify_password_def)

lemma alice_login_facts:
  "confirmed alice \<and> verify_password auth0 ''pw'' (password alice)
   \<and> \<not> verify_password auth0 ''oops'' (password alice)"
  by (simp add: concrete_defs verify_password_def)

lemma confirm_bob:
  "repository_confirmed_email (Str ''b@x.com'') db0 = [alice, bob\<lparr>confirmed := True\<rparr>, carol]"
  by (simp add: concrete_defs repository_confirmed_email_def)

lemma current_user_alice: "get_current_user auth0 tok_access_alice 10 db0 = Inr alice"
  by (simp add: tok_access_alice_def get_current_user_def jwt_decode_created_access
        dict_update_def db0_def alice_def)

section \<open>Refresh: rotation\<close>

text \<open>
  C1. A successful RefreshAccess issues a new access and refresh pair and persists the new
  refresh token, so that the new refresh token is accepted next and the old one fails.
  The run below logs alice in at time 0, refreshes at time 10 and presents the rotated
  token at time 20. Rotation and the failure of the old token hold; the rotated token is
  not accepted: it was issued from \<open>{"email": email}\<close>, so it has no \<open>sub\<close> and the
  next refresh ends in a \<open>KeyError\<close>, which is no HTTP failure.
\<close>

theorem refresh_rotation_run:
  "login auth0 ''a@x.com'' ''pw'' 0 db0 =
     (db_login, Inr (TokenModel (create_access_token auth0 [(''sub'', Str ''a@x.com'')] None 0)
                                tok_login ''bearer''))
 \<and> refresh_token_route auth0 tok_login 10 db_login =
     (db_rotated, Inr (TokenModel (create_access_token auth0 [(''email'', Str ''a@x.com'')] None 10)
                                  tok_rotated ''bearer''))
 \<and> get_user_by_email (Str ''a@x.com'') db_rotated = Some (alice\<lparr>refresh_token := Some tok_rotated\<rparr>)
 \<and> refresh_token_route auth0 tok_rotated 20 db_rotated = (db_rotated, Inl (KeyError ''sub''))
 \<and> \<not> is_HTTPException (KeyError ''sub'')
 \<and> refresh_token_route auth0 tok_login 20 db_rotated =
     ([alice\<lparr>refresh_token := None\<rparr>, bob, carol], Inl InvalidRefreshToken)"
proof -
  have 1: "login auth0 ''a@x.com'' ''pw'' 0 db0 =
     (db_login, Inr (TokenModel (create_access_token auth0 [(''sub'', Str ''a@x.com'')] None 0)
                                tok_login ''bearer''))"
    by (simp add: login_def Let_def db_login_def tok_login_def update_token_def
          verify_password_def db0_def alice_def bob_def carol_def auth0_def)
  have d: "decode_refresh_token auth0 tok_login now =
            (if 604800 < now then Inl (HTTPException 401 ''Could not validate credentials'' [])
             else Inr (Str ''a@x.com''))" for now
    by (simp add: tok_login_def decode_refresh_token_def jwt_decode_created_refresh
          dict_update_def)
  have g: "get_user_by_email (Str ''a@x.com'') db_login =
             Some (alice\<lparr>refresh_token := Some tok_login\<rparr>)"
    by (simp add: db_login_def alice_def)
  have 2: "refresh_token_route auth0 tok_login 10 db_login =
     (db_rotated, Inr (TokenModel (create_access_token auth0 [(''email'', Str ''a@x.com'')] None 10)
                                  tok_rotated ''bearer''))"
    using refresh_token_route_success [of auth0 tok_login 10 "Str ''a@x.com''" db_login, OF _ g]
    by (simp add: d tok_rotated_def [symmetric] del: get_user_by_email.simps)
       (simp add: update_token_def db_login_def db_rotated_def alice_def bob_def carol_def)
  have 3: "get_user_by_email (Str ''a@x.com'') db_rotated =
             Some (alice\<lparr>refresh_token := Some tok_rotated\<rparr>)"
    by (simp add: db_rotated_def alice_def)
  have 4: "refresh_token_route auth0 tok_rotated 20 db_rotated = (db_rotated, Inl (KeyError ''sub''))"
    unfolding tok_rotated_def by (rule rotated_token_crashes) simp
  have ne: "tok_rotated \<noteq> tok_login"
    by (simp add: tok_rotated_def tok_login_def create_refresh_token_def jwt_encode_def
          dict_update_def)
  have 5: "refresh_token_route auth0 tok_login 20 db_rotated =
     ([alice\<lparr>refresh_token := None\<rparr>, bob, carol], Inl InvalidRefreshToken)"
    using ne by (simp add: refresh_token_route_def d 3 del: get_user_by_email.simps)
       (simp add: update_token_def db_rotated_def alice_def bob_def carol_def)
  from 1 2 3 4 5 show ?thesis by simp
qed

section \<open>Requesting a confirmation email\<close>

text \<open>
  C2. RequestEmailConfirmation returns a generic result for every email. For a user who is
  already confirmed the route returns the "already confirmed" message, and for an
  unconfirmed user it queues the email and returns "check your email". For an email with
  no user record it does not: \<open>user.confirmed\<close> is read on \<open>None\<close> before \<open>if user:\<close>, and
  the request ends in an \<open>AttributeError\<close>, which is no HTTP failure.
\<close>

theorem request_email_run:
  "get_user_by_email (Str ''z@x.com'') db0 = None
 \<and> request_email ''z@x.com'' ''http://h/'' [] db0 = (([], db0), Inl (AttributeError ''confirmed''))
 \<and> \<not> is_HTTPException (AttributeError ''confirmed'')
 \<and> request_email ''a@x.com'' ''http://h/'' [] db0 =
     (([], db0), Inr (Message ''Your email is already confirmed''))
 \<and> request_email ''b@x.com'' ''http://h/'' [] db0 =
     (([send_email ''b@x.com'' ''bob'' ''http://h/''], db0),
      Inr (Message ''Check your email for confirmation.''))"
  by (simp add: request_email_def db0_def alice_def bob_def carol_def)

section \<open>The current user\<close>

text \<open>
  C3, as amended. For every validly signed, unexpired token whose scope claim is
  \<open>refresh_token\<close>, GetCurrentUser fails, and it fails with the generic
  \<open>credentials_exception\<close> (CredentialsInvalid), the same failure an undecodable token
  gets; the WrongScope error of the refresh flow is a different exception and is not
  raised here.
\<close>

theorem get_current_user_refresh_scope_generic:
  assumes "jwt_decode tok (SECRET_KEY a) [ALGORITHM a] now = Inr payload"
      and "map_of payload ''scope'' = Some (Str ''refresh_token'')"
  shows "get_current_user a tok now db = Inl credentials_exception
       \<and> get_current_user a tok now db = get_current_user a (Malformed s) now db
       \<and> credentials_exception \<noteq> WrongScope"
  using assms by (simp add: get_current_user_def credentials_exception_def)

theorem get_current_user_refresh_scope_witness:
  "jwt_decode tok_old (SECRET_KEY auth0) [ALGORITHM auth0] 60 =
     Inr [(''sub'', Str ''c@x.com''), (''iat'', Num 0), (''exp'', Num 604800),
          (''scope'', Str ''refresh_token'')]
 \<and> get_current_user auth0 tok_old 60 db0 = Inl credentials_exception"
  using get_current_user_refresh_scope_generic [OF dec_tok_old, of db0 "''x''"]
  by (simp add: dec_tok_old)

text \<open>
  The claim as stated fails on carol's refresh token, signed with the service's key and
  unexpired at time 60: the failure is not WrongScope, and it is the failure of a
  malformed token.
\<close>

theorem get_current_user_refresh_scope_counterexample:
  "jwt_decode tok_old (SECRET_KEY auth0) [ALGORITHM auth0] 60 =
     Inr [(''sub'', Str ''c@x.com''), (''iat'', Num 0), (''exp'', Num 604800),
          (''scope'', Str ''refresh_token'')]
 \<and> get_current_user auth0 tok_old 60 db0 \<noteq> Inl WrongScope
 \<and> get_current_user auth0 tok_old 60 db0 = get_current_user auth0 (Malformed ''garbage'') 60 db0"
  by (simp add: dec_tok_old get_current_user_def credentials_exception_def)

section \<open>Refresh: a token that is not the stored one\<close>

text \<open>
  C4. When the presented refresh token decodes, its subject has a user record and the
  stored refresh token differs from the presented one, RefreshAccess clears the stored
  token and fails with InvalidRefreshToken. After that a second RefreshAccess with the same
  token, at any time, fails again and leaves the stored token cleared: with
  InvalidRefreshToken while the token still decodes, and with the decode failure once it
  has expired.
\<close>

theorem refresh_mismatch_clears_and_fails:
  assumes "decode_refresh_token a tok now = Inr e"
      and "get_user_by_email e db = Some u"
      and "refresh_token u \<noteq> Some tok"
  shows "refresh_token_route a tok now db = (update_token u None db, Inl InvalidRefreshToken)
       \<and> get_user_by_email e (update_token u None db) = Some (u\<lparr>refresh_token := None\<rparr>)
       \<and> refresh_token_route a tok now' (update_token u None db) =
           (update_token u None db,
            Inl (if decode_refresh_token a tok now' = Inr e then InvalidRefreshToken
                 else HTTPException 401 ''Could not validate credentials'' []))"
proof -
  let ?db1 = "update_token u None db"
  have first: "refresh_token_route a tok now db = (?db1, Inl InvalidRefreshToken)"
    using assms by (simp add: refresh_token_route_def)
  have stored: "get_user_by_email e ?db1 = Some (u\<lparr>refresh_token := None\<rparr>)"
    using assms(2) by (rule get_user_by_email_update_token_same)
  have again: "refresh_token_route a tok now' ?db1 =
           (?db1, Inl (if decode_refresh_token a tok now' = Inr e then InvalidRefreshToken
                 else HTTPException 401 ''Could not validate credentials'' []))"
    using decode_refresh_token_cases [OF assms(1), of now'] stored
    by (auto simp: refresh_token_route_def update_token_twice)
  from first stored again show ?thesis by simp
qed

theorem refresh_mismatch_witness:
  "decode_refresh_token auth0 tok_old 60 = Inr (Str ''c@x.com'')
 \<and> get_user_by_email (Str ''c@x.com'') db0 = Some carol
 \<and> refresh_token carol = Some tok_new \<and> tok_new \<noteq> tok_old
 \<and> refresh_token_route auth0 tok_old 60 db0 =
      ([alice, bob, carol\<lparr>refresh_token := None\<rparr>], Inl InvalidRefreshToken)
 \<and> refresh_token_route auth0 tok_old 70 [alice, bob, carol\<lparr>refresh_token := None\<rparr>] =
      ([alice, bob, carol\<lparr>refresh_token := None\<rparr>], Inl InvalidRefreshToken)"
proof -
  have upd: "update_token carol None db0 = [alice, bob, carol\<lparr>refresh_token := None\<rparr>]"
    by (simp add: concrete_defs update_token_def)
  have neq: "tok_new \<noteq> tok_old"
    by (simp add: concrete_defs flow_defs)
  have st: "refresh_token carol = Some tok_new"
    by (simp add: carol_def)
  show ?thesis
    using refresh_mismatch_clears_and_fails [OF dec_old get_carol carol_tok, of 70]
    by (simp add: upd dec_old dec_old70 get_carol neq st del: get_user_by_email.simps)
qed

section \<open>Login\<close>

text \<open>
  C5. Login checks in order: with no user for the email it fails InvalidEmail; for an
  unconfirmed user it fails EmailNotConfirmed, whatever the password (so also when the
  password verifies); for a confirmed user whose password does not verify it fails
  InvalidPassword; otherwise it returns an access token of scope \<open>access_token\<close> and a
  refresh token of scope \<open>refresh_token\<close> for the email, and the refresh token is stored
  on the user.
\<close>

theorem login_checks_in_order:
  "(get_user_by_email (Str un) db = None \<longrightarrow> login a un pw now db = (db, Inl InvalidEmail))
 \<and> (\<forall>u. get_user_by_email (Str un) db = Some u \<and> \<not> confirmed u \<longrightarrow>
        login a un pw now db = (db, Inl EmailNotConfirmed))
 \<and> (\<forall>u. get_user_by_email (Str un) db = Some u \<and> confirmed u
          \<and> \<not> verify_password a pw (password u) \<longrightarrow>
        login a un pw now db = (db, Inl InvalidPassword))
 \<and> (\<forall>u. get_user_by_email (Str un) db = Some u \<and> confirmed u
          \<and> verify_password a pw (password u) \<longrightarrow>
        (\<exists>access refresh.
           login a un pw now db =
             (update_token u (Some refresh) db, Inr (TokenModel access refresh ''bearer''))
         \<and> jwt_decode access (SECRET_KEY a) [ALGORITHM a] now =
             Inr [(''sub'', Str un), (''iat'', Num now), (''exp'', Num (now + 9000)),
                  (''scope'', Str ''access_token'')]
         \<and> jwt_decode refresh (SECRET_KEY a) [ALGORITHM a] now =
             Inr [(''sub'', Str un), (''iat'', Num now), (''exp'', Num (now + 604800)),
                  (''scope'', Str ''refresh_token'')]
         \<and> get_user_by_email (Str un) (update_token u (Some refresh) db) =
             Some (u\<lparr>refresh_token := Some refresh\<rparr>)))"
proof (intro conjI allI impI)
  show "login a un pw now db = (db, Inl InvalidEmail)" if "get_user_by_email (Str un) db = None"
    using that by (simp add: login_def)
next
  fix u assume "get_user_by_email (Str un) db = Some u \<and> \<not> confirmed u"
  then show "login a un pw now db = (db, Inl EmailNotConfirmed)"
    by (simp add: login_def)
next
  fix u assume "get_user_by_email (Str un) db = Some u \<and> confirmed u
                \<and> \<not> verify_password a pw (password u)"
  then show "login a un pw now db = (db, Inl InvalidPassword)"
    by (simp add: login_def)
next
  fix u assume h: "get_user_by_email (Str un) db = Some u \<and> confirmed u
                   \<and> verify_password a pw (password u)"
  then have em: "email u = un"
    using get_user_by_email_Some [of "Str un" db u] by simp
  let ?A = "create_access_token a [(''sub'', Str un)] None now"
  let ?R = "create_refresh_token a [(''sub'', Str un)] None now"
  have 1: "login a un pw now db =
             (update_token u (Some ?R) db, Inr (TokenModel ?A ?R ''bearer''))"
    using h em by (simp add: login_def Let_def)
  have 2: "jwt_decode ?A (SECRET_KEY a) [ALGORITHM a] now =
             Inr [(''sub'', Str un), (''iat'', Num now), (''exp'', Num (now + 9000)),
                  (''scope'', Str ''access_token'')]"
    by (simp add: jwt_decode_created_access dict_update_def)
  have 3: "jwt_decode ?R (SECRET_KEY a) [ALGORITHM a] now =
             Inr [(''sub'', Str un), (''iat'', Num now), (''exp'', Num (now + 604800)),
                  (''scope'', Str ''refresh_token'')]"
    by (simp add: jwt_decode_created_refresh dict_update_def)
  have 4: "get_user_by_email (Str un) (update_token u (Some ?R) db) =
             Some (u\<lparr>refresh_token := Some ?R\<rparr>)"
    using h get_user_by_email_update_token_same [of "Str un" db u] by blast
  from 1 2 3 4 show "\<exists>access refresh.
           login a un pw now db =
             (update_token u (Some refresh) db, Inr (TokenModel access refresh ''bearer''))
         \<and> jwt_decode access (SECRET_KEY a) [ALGORITHM a] now =
             Inr [(''sub'', Str un), (''iat'', Num now), (''exp'', Num (now + 9000)),
                  (''scope'', Str ''access_token'')]
         \<and> jwt_decode refresh (SECRET_KEY a) [ALGORITHM a] now =
             Inr [(''sub'', Str un), (''iat'', Num now), (''exp'', Num (now + 604800)),
                  (''scope'', Str ''refresh_token'')]
         \<and> get_user_by_email (Str un) (update_token u (Some refresh) db) =
             Some (u\<lparr>refresh_token := Some refresh\<rparr>)"
    by blast
qed

theorem login_checks_in_order_witness:
  "get_user_by_email (Str ''z@x.com'') db0 = None
 \<and> login auth0 ''z@x.com'' ''pw'' 7 db0 = (db0, Inl InvalidEmail)
 \<and> get_user_by_email (Str ''b@x.com'') db0 = Some bob \<and> \<not> confirmed bob
 \<and> verify_password auth0 ''pw2'' (password bob)
 \<and> login auth0 ''b@x.com'' ''pw2'' 7 db0 = (db0, Inl EmailNotConfirmed)
 \<and> get_user_by_email (Str ''a@x.com'') db0 = Some alice \<and> confirmed alice
 \<and> \<not> verify_password auth0 ''oops'' (password alice)
 \<and> login auth0 ''a@x.com'' ''oops'' 7 db0 = (db0, Inl InvalidPassword)
 \<and> verify_password auth0 ''pw'' (password alice)
 \<and> (\<exists>access refresh.
       login auth0 ''a@x.com'' ''pw'' 7 db0 =
         (update_token alice (Some refresh) db0, Inr (TokenModel access refresh ''bearer''))
     \<and> get_user_by_email (Str ''a@x.com'') (update_token alice (Some refresh) db0) =
         Some (alice\<lparr>refresh_token := Some refresh\<rparr>))"
proof -
  note z = login_checks_in_order [of "''z@x.com''" db0 auth0 "''pw''" 7]
  note b = login_checks_in_order [of "''b@x.com''" db0 auth0 "''pw2''" 7]
  note w = login_checks_in_order [of "''a@x.com''" db0 auth0 "''oops''" 7]
  note s = login_checks_in_order [of "''a@x.com''" db0 auth0 "''pw''" 7]
  have 1: "login auth0 ''z@x.com'' ''pw'' 7 db0 = (db0, Inl InvalidEmail)"
    using z get_ghost by blast
  have 2: "login auth0 ''b@x.com'' ''pw2'' 7 db0 = (db0, Inl EmailNotConfirmed)"
    using b get_bob bob_unconfirmed by blast
  have 3: "login auth0 ''a@x.com'' ''oops'' 7 db0 = (db0, Inl InvalidPassword)"
    using w get_alice alice_login_facts by blast
  have 4: "\<exists>access refresh.
       login auth0 ''a@x.com'' ''pw'' 7 db0 =
         (update_token alice (Some refresh) db0, Inr (TokenModel access refresh ''bearer''))
     \<and> get_user_by_email (Str ''a@x.com'') (update_token alice (Some refresh) db0) =
         Some (alice\<lparr>refresh_token := Some refresh\<rparr>)"
    using s get_alice alice_login_facts by blast
  from 1 2 3 4 get_ghost get_bob bob_unconfirmed bob_password get_alice alice_login_facts
  show ?thesis by blast
qed

section \<open>The token codec\<close>

text \<open>
  C6. For every claims set \<open>C\<close> and secret \<open>S\<close>, decoding the token \<open>encode(C, S)\<close> with \<open>S\<close>
  gives \<open>C\<close> back while the \<open>exp\<close> timestamp of \<open>C\<close> has not passed (and always when \<open>C\<close>
  has no \<open>exp\<close>); once \<open>exp\<close> has passed, decode fails with Expired. So the tokens the
  service creates decode to the data with \<open>iat\<close>, \<open>exp\<close> and the scope until their lifetime
  (150 minutes for access, 7 days for refresh and confirmation) is over, and fail with
  Expired after it.
\<close>

theorem jwt_roundtrip_until_expiry:
  "(\<forall>e. map_of C ''exp'' = Some (Num e) \<longrightarrow>
       jwt_decode (jwt_encode C S alg) S [alg] now = (if e < now then Inl Expired else Inr C))
 \<and> (map_of C ''exp'' = None \<longrightarrow> jwt_decode (jwt_encode C S alg) S [alg] now = Inr C)
 \<and> jwt_decode (create_access_token a d None t0) (SECRET_KEY a) [ALGORITHM a] now =
     (if t0 + 9000 < now then Inl Expired
      else Inr (dict_update d
        [(''iat'', Num t0), (''exp'', Num (t0 + 9000)), (''scope'', Str ''access_token'')]))
 \<and> jwt_decode (create_refresh_token a d None t0) (SECRET_KEY a) [ALGORITHM a] now =
     (if t0 + 604800 < now then Inl Expired
      else Inr (dict_update d
        [(''iat'', Num t0), (''exp'', Num (t0 + 604800)), (''scope'', Str ''refresh_token'')]))
 \<and> jwt_decode (create_email_token a d t0) (SECRET_KEY a) [ALGORITHM a] now =
     (if t0 + 604800 < now then Inl Expired
      else Inr (dict_update d [(''iat'', Num t0), (''exp'', Num (t0 + 604800))]))"
  by (simp add: jwt_encode_def jwt_decode_created_access jwt_decode_created_refresh
        jwt_decode_created_email)

theorem jwt_roundtrip_witness:
  "map_of claims0 ''exp'' = Some (Num 100)
 \<and> jwt_decode (jwt_encode claims0 ''k'' ''HS256'') ''k'' [''HS256''] 100 = Inr claims0
 \<and> jwt_decode (jwt_encode claims0 ''k'' ''HS256'') ''k'' [''HS256''] 101 = Inl Expired
 \<and> map_of [(''sub'', Str ''a@x.com'')] ''exp'' = None
 \<and> jwt_decode (jwt_encode [(''sub'', Str ''a@x.com'')] ''k'' ''HS256'') ''k'' [''HS256''] 101 =
      Inr [(''sub'', Str ''a@x.com'')]"
proof -
  have e: "map_of claims0 ''exp'' = Some (Num 100)"
    by (simp add: claims0_def)
  have n: "map_of [(''sub'', Str ''a@x.com'')] ''exp'' = None"
    by simp
  note a = jwt_roundtrip_until_expiry [of claims0 "''k''" "''HS256''" 100 auth0 "[]" 0]
  note b = jwt_roundtrip_until_expiry [of claims0 "''k''" "''HS256''" 101 auth0 "[]" 0]
  note c = jwt_roundtrip_until_expiry
             [of "[(''sub'', Str ''a@x.com'')]" "''k''" "''HS256''" 101 auth0 "[]" 0]
  have 1: "jwt_decode (jwt_encode claims0 ''k'' ''HS256'') ''k'' [''HS256''] 100 = Inr claims0"
    using a e by simp
  have 2: "jwt_decode (jwt_encode claims0 ''k'' ''HS256'') ''k'' [''HS256''] 101 = Inl Expired"
    using b e by simp
  have 3: "jwt_decode (jwt_encode [(''sub'', Str ''a@x.com'')] ''k'' ''HS256'') ''k'' [''HS256''] 101 =
      Inr [(''sub'', Str ''a@x.com'')]"
    using c n by blast
  from e n 1 2 3 show ?thesis by blast
qed

section \<open>Confirming an email\<close>

text \<open>
  C7. ConfirmEmail is idempotent. When the token decodes to a subject: with no user
  record for the subject it fails VerificationError; for an unconfirmed user the call
  marks the user confirmed and returns "Email confirmed", and every later call for that
  subject returns "Your email is already confirmed", with no error and the session
  unchanged.
\<close>

theorem confirmed_email_idempotent:
  assumes "get_email_from_token a tok now = Inr e"
  shows "(get_user_by_email e db = None \<longrightarrow>
            confirmed_email a tok now db = (db, Inl VerificationError))
       \<and> (\<forall>u. get_user_by_email e db = Some u \<and> \<not> confirmed u \<longrightarrow>
            confirmed_email a tok now db =
              (repository_confirmed_email e db, Inr (Message ''Email confirmed''))
          \<and> get_user_by_email e (repository_confirmed_email e db) = Some (u\<lparr>confirmed := True\<rparr>)
          \<and> (\<forall>tok' now'. get_email_from_token a tok' now' = Inr e \<longrightarrow>
                confirmed_email a tok' now' (repository_confirmed_email e db) =
                  (repository_confirmed_email e db,
                   Inr (Message ''Your email is already confirmed''))))"
proof (intro conjI allI impI)
  assume "get_user_by_email e db = None"
  with assms show "confirmed_email a tok now db = (db, Inl VerificationError)"
    by (simp add: confirmed_email_def)
next
  fix u assume h: "get_user_by_email e db = Some u \<and> \<not> confirmed u"
  with assms show "confirmed_email a tok now db =
              (repository_confirmed_email e db, Inr (Message ''Email confirmed''))"
    by (simp add: confirmed_email_def)
  from h show st: "get_user_by_email e (repository_confirmed_email e db) =
                     Some (u\<lparr>confirmed := True\<rparr>)"
    by (simp add: get_user_by_email_confirmed)
  fix tok' now' assume "get_email_from_token a tok' now' = Inr e"
  with st show "confirmed_email a tok' now' (repository_confirmed_email e db) =
                  (repository_confirmed_email e db,
                   Inr (Message ''Your email is already confirmed''))"
    by (simp add: confirmed_email_def)
qed

theorem confirmed_email_idempotent_witness:
  "get_email_from_token auth0 tok_mail 10 = Inr (Str ''b@x.com'')
 \<and> get_user_by_email (Str ''b@x.com'') db0 = Some bob \<and> \<not> confirmed bob
 \<and> confirmed_email auth0 tok_mail 10 db0 =
      ([alice, bob\<lparr>confirmed := True\<rparr>, carol], Inr (Message ''Email confirmed''))
 \<and> confirmed_email auth0 tok_mail 20 [alice, bob\<lparr>confirmed := True\<rparr>, carol] =
      ([alice, bob\<lparr>confirmed := True\<rparr>, carol], Inr (Message ''Your email is already confirmed''))
 \<and> get_email_from_token auth0 tok_mail_ghost 10 = Inr (Str ''z@x.com'')
 \<and> get_user_by_email (Str ''z@x.com'') db0 = None
 \<and> confirmed_email auth0 tok_mail_ghost 10 db0 = (db0, Inl VerificationError)"
  using confirmed_email_idempotent [OF dec_mail, of db0]
        confirmed_email_idempotent [OF dec_mail_ghost, of db0]
  by (simp add: dec_mail dec_mail20 dec_mail_ghost get_bob get_ghost bob_unconfirmed confirm_bob
           del: get_user_by_email.simps)

section \<open>The role gate\<close>

text \<open>
  C8. For every resolved user and every Role Gate built with a fixed list of allowed
  roles, the gate fails with Forbidden exactly when the user's role is not in the list,
  and otherwise returns, so that the request proceeds (the gate holds no session and
  writes none). A user with role user is rejected by an admin-only gate and one with
  role admin passes.
\<close>

theorem RoleAccess_call_forbidden_iff:
  "(RoleAccess_call gate u = Inl Forbidden) = (role u \<notin> set (allowed_roles gate))
 \<and> (RoleAccess_call gate u = Inr ()) = (role u \<in> set (allowed_roles gate))
 \<and> RoleAccess_call \<lparr>allowed_roles = [Role_admin]\<rparr> (u\<lparr>role := Role_user\<rparr>) = Inl Forbidden
 \<and> RoleAccess_call \<lparr>allowed_roles = [Role_admin]\<rparr> (u\<lparr>role := Role_admin\<rparr>) = Inr ()"
  by (simp add: RoleAccess_call_def)

theorem RoleAccess_call_witness:
  "role alice = Role_user \<and> role bob = Role_admin
 \<and> RoleAccess_call \<lparr>allowed_roles = [Role_admin]\<rparr> alice = Inl Forbidden
 \<and> RoleAccess_call \<lparr>allowed_roles = [Role_admin]\<rparr> bob = Inr ()
 \<and> role_gate \<lparr>allowed_roles = [Role_admin]\<rparr> auth0 tok_access_alice 10 db0 = Inl Forbidden"
proof -
  have r: "role alice = Role_user \<and> role bob = Role_admin"
    by (simp add: alice_def bob_def)
  have 1: "RoleAccess_call \<lparr>allowed_roles = [Role_admin]\<rparr> alice = Inl Forbidden"
    using RoleAccess_call_forbidden_iff [of "\<lparr>allowed_roles = [Role_admin]\<rparr>" alice] r
    by simp
  have 2: "RoleAccess_call \<lparr>allowed_roles = [Role_admin]\<rparr> bob = Inr ()"
    using RoleAccess_call_forbidden_iff [of "\<lparr>allowed_roles = [Role_admin]\<rparr>" bob] r
    by simp
  from r 1 2 role_gate_resolved [OF current_user_alice, of "\<lparr>allowed_roles = [Role_admin]\<rparr>"]
  show ?thesis by simp
qed

section \<open>Refresh: a subject with no user record\<close>

text \<open>
  C9. When RefreshAccess is given a validly signed, unexpired refresh token whose decoded
  subject has no user record, the route reads \<open>user.refresh_token\<close> on \<open>None\<close>: the request
  ends in an \<open>AttributeError\<close>, which is no failure of the error taxonomy (no
  \<open>HTTPException\<close>), and the session is unchanged.
\<close>

theorem refresh_absent_user_crashes:
  assumes "decode_refresh_token a tok now = Inr e"
      and "get_user_by_email e db = None"
  shows "refresh_token_route a tok now db = (db, Inl (AttributeError ''refresh_token''))
       \<and> \<not> is_HTTPException (AttributeError ''refresh_token'')"
  using assms by (simp add: refresh_token_route_def)

theorem refresh_absent_user_witness:
  "decode_refresh_token auth0 tok_ghost 60 = Inr (Str ''z@x.com'')
 \<and> get_user_by_email (Str ''z@x.com'') db0 = None
 \<and> refresh_token_route auth0 tok_ghost 60 db0 = (db0, Inl (AttributeError ''refresh_token''))"
  using refresh_absent_user_crashes [OF dec_ghost get_ghost]
  by (simp add: dec_ghost get_ghost del: get_user_by_email.simps)

section \<open>The confirmation path checks no scope\<close>

text \<open>
  C10. \<open>get_email_from_token\<close> checks no scope and no purpose: every token that decodes
  under the service's secret and carries a \<open>sub\<close> claim is accepted, whatever its scope,
  and ConfirmEmail with it marks an unconfirmed user of that subject confirmed. The access
  and refresh tokens that login issues are accepted for their whole lifetime.
\<close>

theorem get_email_from_token_ignores_scope:
  "(\<forall>payload e. jwt_decode tok (SECRET_KEY a) [ALGORITHM a] now = Inr payload
                \<and> map_of payload ''sub'' = Some e \<longrightarrow>
       get_email_from_token a tok now = Inr e
     \<and> (\<forall>db u. get_user_by_email e db = Some u \<and> \<not> confirmed u \<longrightarrow>
           confirmed_email a tok now db =
             (repository_confirmed_email e db, Inr (Message ''Email confirmed''))))
 \<and> (now \<le> t0 + 9000 \<longrightarrow>
       get_email_from_token a (create_access_token a [(''sub'', Str em)] None t0) now = Inr (Str em))
 \<and> (now \<le> t0 + 604800 \<longrightarrow>
       get_email_from_token a (create_refresh_token a [(''sub'', Str em)] None t0) now = Inr (Str em))"
proof (intro conjI allI impI)
  fix payload e
  assume h: "jwt_decode tok (SECRET_KEY a) [ALGORITHM a] now = Inr payload
             \<and> map_of payload ''sub'' = Some e"
  then show g: "get_email_from_token a tok now = Inr e"
    by (simp add: get_email_from_token_def)
  fix db u assume "get_user_by_email e db = Some u \<and> \<not> confirmed u"
  with g show "confirmed_email a tok now db =
             (repository_confirmed_email e db, Inr (Message ''Email confirmed''))"
    by (simp add: confirmed_email_def)
next
  assume "now \<le> t0 + 9000"
  then show "get_email_from_token a (create_access_token a [(''sub'', Str em)] None t0) now =
               Inr (Str em)"
    by (simp add: get_email_from_token_def jwt_decode_created_access dict_update_def)
next
  assume "now \<le> t0 + 604800"
  then show "get_email_from_token a (create_refresh_token a [(''sub'', Str em)] None t0) now =
               Inr (Str em)"
    by (simp add: get_email_from_token_def jwt_decode_created_refresh dict_update_def)
qed

theorem get_email_from_token_ignores_scope_witness:
  "jwt_decode tok_access_bob (SECRET_KEY auth0) [ALGORITHM auth0] 10 =
     Inr [(''sub'', Str ''b@x.com''), (''iat'', Num 0), (''exp'', Num 9000),
          (''scope'', Str ''access_token'')]
 \<and> get_user_by_email (Str ''b@x.com'') db0 = Some bob \<and> \<not> confirmed bob
 \<and> get_email_from_token auth0 tok_access_bob 10 = Inr (Str ''b@x.com'')
 \<and> confirmed_email auth0 tok_access_bob 10 db0 =
      ([alice, bob\<lparr>confirmed := True\<rparr>, carol], Inr (Message ''Email confirmed''))
 \<and> (60::int) \<le> 0 + 604800
 \<and> get_email_from_token auth0 tok_old 60 = Inr (Str ''c@x.com'')"
proof -
  note th = get_email_from_token_ignores_scope [of tok_access_bob auth0 10 0 "''c@x.com''"]
  note th2 = get_email_from_token_ignores_scope [of tok_access_bob auth0 60 0 "''c@x.com''"]
  have 1: "get_email_from_token auth0 tok_access_bob 10 = Inr (Str ''b@x.com'')"
    using th dec_access_bob by simp
  have 2: "confirmed_email auth0 tok_access_bob 10 db0 =
      (repository_confirmed_email (Str ''b@x.com'') db0, Inr (Message ''Email confirmed''))"
    using th dec_access_bob get_bob bob_unconfirmed by (simp del: get_user_by_email.simps)
  have 3: "get_email_from_token auth0 tok_old 60 = Inr (Str ''c@x.com'')"
    using th2 by (simp add: tok_old_def)
  from 1 2 3 show ?thesis
    by (simp add: dec_access_bob get_bob bob_unconfirmed confirm_bob del: get_user_by_email.simps)
qed

end
